theory Spec2Isabelle
  imports Main "HOL-Library.Word" "HOL-Library.Sublist"
begin

section \<open>Errors\<close>

text \<open>
  A Go \<open>error\<close> is a value of the datatype \<open>error\<close>; a nil error is \<open>None\<close> of
  \<open>error option\<close>. The sentinel errors of package kubernetes are constructors;
  \<open>ErrorsNew msg\<close> is \<open>errors.New(msg)\<close>, and \<open>Errorf format args w\<close> is
  \<open>fmt.Errorf(format, args..., w)\<close> with \<open>w\<close> the error a \<open>%w\<close> verb wraps, if any.
  The message is kept as the format and its arguments. \<open>ErrResourceNotFound\<close> and
  \<open>ErrNoPermissionToAccessResource\<close> are declared in a file of package kubernetes that
  is not among the sources.
\<close>

datatype error =
    ErrMissingKubernetesEnv
  | ErrInvalidIngressUpdateParams
  | ErrInvalidIngressUpdateARNParams
  | ErrUpdateNotNeeded
  | ErrInvalidConfiguration
  | ErrInvalidCertificates
  | ErrResourceNotFound
  | ErrNoPermissionToAccessResource
  | ErrorsNew string
  | Errorf string "arg list" "error option"
and arg = Str string | Errs "error list"


section \<open>Package aws: CloudFormation stacks\<close>

text \<open>
  A \<open>time.Time\<close> is modelled by the instant it denotes: the number of nanoseconds from
  the zero instant (January 1, year 1, 00:00:00 UTC), negative before it. \<open>IsZero\<close>
  and \<open>After\<close> compare instants, as the Go methods do. \<open>time.Now().UTC()\<close> is an
  input of the functions that read the clock.
\<close>

type_synonym time = int

definition IsZero :: "time \<Rightarrow> bool" where
  "IsZero t = (t = 0)"

definition After :: "time \<Rightarrow> time \<Rightarrow> bool" where
  "After t u = (u < t)"

record ExtraListener =
  ListenProtocol :: string
  ListenPort :: "64 word"
  TargetPort :: "64 word"
  PodLabel :: string
  Namespace :: string

text \<open>
  The struct \<open>Stack\<close>. \<open>CertificateARNs\<close> is a Go map that \<open>ShouldDelete\<close> ranges
  over; it is the list of its entries in the order of the iteration, which Go leaves
  open. \<open>tags\<close> is only indexed, so it is a map.
\<close>

record Stack =
  Name :: string
  status :: string
  statusReason :: string
  DNSName :: string
  Scheme :: string
  SecurityGroup :: string
  SSLPolicy :: string
  IpAddressType :: string
  LoadBalancerType :: string
  HTTP2 :: bool
  ExtraListeners :: "ExtraListener list"
  OwnerIngress :: string
  CWAlarmConfigHash :: string
  TargetGroupARNs :: "string list"
  WAFWebACLID :: string
  CertificateARNs :: "(string \<times> time) list"
  tags :: "string \<rightharpoonup> string"
  loadbalancerARN :: string

text \<open>The zero value \<open>Stack{}\<close>.\<close>

definition emptyStack :: Stack where
  "emptyStack = \<lparr>Name = [], status = [], statusReason = [], DNSName = [], Scheme = [],
     SecurityGroup = [], SSLPolicy = [], IpAddressType = [], LoadBalancerType = [],
     HTTP2 = False, ExtraListeners = [], OwnerIngress = [], CWAlarmConfigHash = [],
     TargetGroupARNs = [], WAFWebACLID = [], CertificateARNs = [], tags = Map.empty,
     loadbalancerARN = []\<rparr>"

subsection \<open>The stack statuses of the AWS SDK\<close>

definition StackStatusCreateInProgress :: string where
  "StackStatusCreateInProgress = ''CREATE_IN_PROGRESS''"

definition StackStatusCreateComplete :: string where
  "StackStatusCreateComplete = ''CREATE_COMPLETE''"

definition StackStatusRollbackInProgress :: string where
  "StackStatusRollbackInProgress = ''ROLLBACK_IN_PROGRESS''"

definition StackStatusRollbackComplete :: string where
  "StackStatusRollbackComplete = ''ROLLBACK_COMPLETE''"

definition StackStatusDeleteInProgress :: string where
  "StackStatusDeleteInProgress = ''DELETE_IN_PROGRESS''"

definition StackStatusDeleteComplete :: string where
  "StackStatusDeleteComplete = ''DELETE_COMPLETE''"

definition StackStatusUpdateInProgress :: string where
  "StackStatusUpdateInProgress = ''UPDATE_IN_PROGRESS''"

definition StackStatusUpdateCompleteCleanupInProgress :: string where
  "StackStatusUpdateCompleteCleanupInProgress = ''UPDATE_COMPLETE_CLEANUP_IN_PROGRESS''"

definition StackStatusUpdateComplete :: string where
  "StackStatusUpdateComplete = ''UPDATE_COMPLETE''"

definition StackStatusUpdateRollbackComplete :: string where
  "StackStatusUpdateRollbackComplete = ''UPDATE_ROLLBACK_COMPLETE''"

text \<open>
  An in-progress status, in the words of the specification: CloudFormation names every
  such status with the ending \<open>_IN_PROGRESS\<close>.
\<close>

definition inProgressStatus :: "string \<Rightarrow> bool" where
  "inProgressStatus st = suffix ''_IN_PROGRESS'' st"

subsection \<open>Methods of Stack\<close>

text \<open>A \<open>*Stack\<close> receiver is a \<open>Stack option\<close>; \<open>None\<close> is the nil pointer.\<close>

definition IsComplete :: "Stack option \<Rightarrow> bool" where
  "IsComplete s =
     (case s of
        None \<Rightarrow> False
      | Some st \<Rightarrow>
          if status st = StackStatusCreateComplete
             \<or> status st = StackStatusUpdateComplete
             \<or> status st = StackStatusRollbackComplete
             \<or> status st = StackStatusUpdateRollbackComplete
          then True
          else False)"

text \<open>The loop of \<open>ShouldDelete\<close> over the certificate entries, with its early return.\<close>

fun ShouldDelete_range :: "time \<Rightarrow> (string \<times> time) list \<Rightarrow> bool" where
  "ShouldDelete_range now [] = True"
| "ShouldDelete_range now ((arn, t) # rest) =
     (if IsZero t \<or> After t now then False else ShouldDelete_range now rest)"

definition ShouldDelete :: "time \<Rightarrow> Stack option \<Rightarrow> bool" where
  "ShouldDelete now s =
     (case s of
        None \<Rightarrow> False
      | Some st \<Rightarrow> ShouldDelete_range now (CertificateARNs st))"

definition Err :: "Stack option \<Rightarrow> error option" where
  "Err s =
     (case s of
        None \<Rightarrow> None
      | Some st \<Rightarrow>
          if status st = StackStatusCreateInProgress
             \<or> status st = StackStatusCreateComplete
             \<or> status st = StackStatusUpdateInProgress
             \<or> status st = StackStatusUpdateComplete
             \<or> status st = StackStatusUpdateCompleteCleanupInProgress
             \<or> status st = StackStatusDeleteInProgress
             \<or> status st = StackStatusDeleteComplete
          then None
          else if statusReason st \<noteq> []
          then Some (Errorf ''unexpected status %s: %s''
                       [Str (status st), Str (statusReason st)] None)
          else Some (Errorf ''unexpected status %s'' [Str (status st)] None))"

subsection \<open>Stack inventory\<close>

text \<open>
  Modelled from the spec: the four tag constants \<open>kubernetesCreatorTag\<close>,
  \<open>clusterIDTagPrefix\<close>, \<open>resourceLifecycleOwned\<close> and \<open>clusterIDTag\<close> are declared
  in a file of package aws that is not among the sources; their values are the tag
  names and the value the specification gives for the stack inventory.
\<close>

definition kubernetesCreatorTag :: string where
  "kubernetesCreatorTag = ''kubernetes:application''"

definition clusterIDTagPrefix :: string where
  "clusterIDTagPrefix = ''kubernetes.io/cluster/''"

definition resourceLifecycleOwned :: string where
  "resourceLifecycleOwned = ''owned''"

definition clusterIDTag :: string where
  "clusterIDTag = ''KubernetesCluster''"

text \<open>A \<open>cloudformation.Tag\<close>: both fields are \<open>*string\<close>.\<close>

record Tag =
  Key :: "string option"
  Value :: "string option"

text \<open>\<open>aws.StringValue\<close>: the string a pointer refers to, empty for nil.\<close>

definition StringValue :: "string option \<Rightarrow> string" where
  "StringValue p = (case p of None \<Rightarrow> [] | Some v \<Rightarrow> v)"

text \<open>Indexing a Go \<open>map[string]string\<close>: an absent key reads as the empty string.\<close>

definition mapIndex :: "(string \<rightharpoonup> string) \<Rightarrow> string \<Rightarrow> string" where
  "mapIndex m k = (case m k of None \<Rightarrow> [] | Some v \<Rightarrow> v)"

fun convertCloudFormationTags_range ::
  "Tag list \<Rightarrow> (string \<rightharpoonup> string) \<Rightarrow> (string \<rightharpoonup> string)" where
  "convertCloudFormationTags_range [] ret = ret"
| "convertCloudFormationTags_range (tag # rest) ret =
     convertCloudFormationTags_range rest
       (ret(StringValue (Key tag) \<mapsto> StringValue (Value tag)))"

definition convertCloudFormationTags :: "Tag list \<Rightarrow> (string \<rightharpoonup> string)" where
  "convertCloudFormationTags cfTags = convertCloudFormationTags_range cfTags Map.empty"

definition isManagedStack :: "Tag list \<Rightarrow> string \<Rightarrow> string \<Rightarrow> bool" where
  "isManagedStack cfTags clusterID controllerID =
     (let tgs = convertCloudFormationTags cfTags in
      if mapIndex tgs kubernetesCreatorTag \<noteq> controllerID then False
      else mapIndex tgs (clusterIDTagPrefix @ clusterID) = resourceLifecycleOwned
           \<or> mapIndex tgs clusterIDTag = clusterID)"

text \<open>
  The acceptance rule in the words of the specification: the tags contain either the
  application tag with the controller id together with the cluster tag \<open>owned\<close>, or the
  legacy cluster tag.
\<close>

definition isManagedStack_spec :: "Tag list \<Rightarrow> string \<Rightarrow> string \<Rightarrow> bool" where
  "isManagedStack_spec cfTags clusterID controllerID =
     ((\<lparr>Key = Some kubernetesCreatorTag, Value = Some controllerID\<rparr> \<in> set cfTags
        \<and> \<lparr>Key = Some (clusterIDTagPrefix @ clusterID), Value = Some resourceLifecycleOwned\<rparr>
            \<in> set cfTags)
      \<or> \<lparr>Key = Some clusterIDTag, Value = Some clusterID\<rparr> \<in> set cfTags)"

text \<open>The value a tag list gives a key: that of the last tag with the key, empty if none.\<close>

definition tagValue :: "Tag list \<Rightarrow> string \<Rightarrow> string" where
  "tagValue cfTags k =
     (case filter (\<lambda>t. StringValue (Key t) = k) cfTags of
        [] \<Rightarrow> []
      | t # ts \<Rightarrow> StringValue (Value (last (t # ts))))"

text \<open>
  A \<open>cloudformation.Stack\<close> of the AWS SDK, with the fields package aws reads.
\<close>

record cfOutput =
  OutputKey :: "string option"
  OutputValue :: "string option"

record cfParameter =
  ParameterKey :: "string option"
  ParameterValue :: "string option"

record cfStack =
  StackName :: "string option"
  StackStatus :: "string option"
  StackStatusReason :: "string option"
  Outputs :: "cfOutput list"
  Parameters :: "cfParameter list"
  Tags :: "Tag list"

text \<open>
  The loop of \<open>findManagedStacks\<close> over the stacks of a page. \<open>mapToManagedStack\<close> is
  an argument: it decodes an accepted stack with \<open>time.Parse\<close>, base64 and JSON, and
  returns the stack record, or the empty record together with an error.
\<close>

fun findManagedStacks_range ::
  "(cfStack \<Rightarrow> error + Stack) \<Rightarrow> string \<Rightarrow> string \<Rightarrow> cfStack list
     \<Rightarrow> Stack list \<times> error list \<Rightarrow> Stack list \<times> error list" where
  "findManagedStacks_range mapToManagedStack clusterID controllerID [] (stacks, errors) =
     (stacks, errors)"
| "findManagedStacks_range mapToManagedStack clusterID controllerID (s # rest) (stacks, errors) =
     (if isManagedStack (Tags s) clusterID controllerID
      then (case mapToManagedStack s of
              Inl err \<Rightarrow>
                findManagedStacks_range mapToManagedStack clusterID controllerID rest
                  (stacks @ [emptyStack], errors @ [err])
            | Inr stack \<Rightarrow>
                findManagedStacks_range mapToManagedStack clusterID controllerID rest
                  (stacks @ [stack], errors))
      else findManagedStacks_range mapToManagedStack clusterID controllerID rest
             (stacks, errors))"

text \<open>The callback of \<open>DescribeStacksPages\<close> runs on every page.\<close>

fun findManagedStacks_pages ::
  "(cfStack \<Rightarrow> error + Stack) \<Rightarrow> string \<Rightarrow> string \<Rightarrow> cfStack list list
     \<Rightarrow> Stack list \<times> error list \<Rightarrow> Stack list \<times> error list" where
  "findManagedStacks_pages mapToManagedStack clusterID controllerID [] acc = acc"
| "findManagedStacks_pages mapToManagedStack clusterID controllerID (page # rest) acc =
     findManagedStacks_pages mapToManagedStack clusterID controllerID rest
       (findManagedStacks_range mapToManagedStack clusterID controllerID page acc)"

text \<open>
  \<open>findManagedStacks\<close>, given what \<open>svc.DescribeStacksPages\<close> did: the pages it handed
  to the callback and the error it returned, if any.
\<close>

definition findManagedStacks ::
  "(cfStack \<Rightarrow> error + Stack) \<Rightarrow> cfStack list list \<times> error option \<Rightarrow> string \<Rightarrow> string
     \<Rightarrow> error + Stack list" where
  "findManagedStacks mapToManagedStack describeStacksPages clusterID controllerID =
     (case findManagedStacks_pages mapToManagedStack clusterID controllerID
             (fst describeStacksPages) ([], []) of
        (stacks, errors) \<Rightarrow>
          (case snd describeStacksPages of
             Some err \<Rightarrow>
               Inl (Errorf ''findManagedStacks failed to list stacks: %w'' [] (Some err))
           | None \<Rightarrow>
               if length errors > 0
               then Inl (Errorf ''mapToManagedStacks returned errors: %v'' [Errs errors] None)
               else Inr stacks))"

section \<open>Package kubernetes: the adapter\<close>

subsection \<open>Kubernetes objects\<close>

record kubeItemMetadata =
  Namespace :: string
  Name :: string
  UID :: string
  Annotations :: "string \<rightharpoonup> string"
  SelfLink :: string
  ResourceVersion :: string
  Generation :: int
  CreationTimestamp :: time
  DeletionTimestamp :: time
  Labels :: "string \<rightharpoonup> string"

record ingressItemRule =
  Host :: string

record ingressSpec =
  Rules :: "ingressItemRule list"
  IngressClassName :: string

record ingressLoadBalancer =
  Hostname :: string

record ingressLoadBalancerStatus =
  Ingress :: "ingressLoadBalancer list"

record ingressStatus =
  LoadBalancer :: ingressLoadBalancerStatus

record ingress =
  Metadata :: kubeItemMetadata
  Spec :: ingressSpec
  Status :: ingressStatus

record ingressListMetadata =
  SelfLink :: string
  ResourceVersion :: string

record ingressList =
  Kind :: string
  APIVersion :: string
  Metadata :: ingressListMetadata
  Items :: "ingress list"

record patchIngressStatus =
  Status :: ingressStatus

record ingressClient =
  apiVersion :: string

text \<open>
  Modelled from the spec: the RouteGroup types are declared in a file of the package
  that is not among the sources. The records have the fields the adapter reads: the
  metadata, the hosts of the spec, and the hostnames of the load-balancer status.
\<close>

record routegroupSpec =
  Hosts :: "string list"

record routegroupLoadBalancer =
  Hostname :: string

record routegroupLoadBalancerStatus =
  Routegroup :: "routegroupLoadBalancer list"

record routegroupStatus =
  LoadBalancer :: routegroupLoadBalancerStatus

record routegroup =
  Metadata :: kubeItemMetadata
  Spec :: routegroupSpec
  Status :: routegroupStatus

record routegroupList =
  Items :: "routegroup list"

text \<open>
  Modelled from the spec: \<open>aws.CNIEndpoint\<close> is declared in a file of package aws
  that is not among the sources; it has the two fields the adapter sets.
\<close>

record CNIEndpoint =
  Namespace :: string
  Podlabel :: string

subsection \<open>Constants\<close>

definition ingressALBIPAddressType :: string where
  "ingressALBIPAddressType = ''alb.ingress.kubernetes.io/ip-address-type''"

definition ingressCertificateARNAnnotation :: string where
  "ingressCertificateARNAnnotation = ''zalando.org/aws-load-balancer-ssl-cert''"

definition ingressSchemeAnnotation :: string where
  "ingressSchemeAnnotation = ''zalando.org/aws-load-balancer-scheme''"

definition ingressSharedAnnotation :: string where
  "ingressSharedAnnotation = ''zalando.org/aws-load-balancer-shared''"

definition ingressSecurityGroupAnnotation :: string where
  "ingressSecurityGroupAnnotation = ''zalando.org/aws-load-balancer-security-group''"

definition ingressSSLPolicyAnnotation :: string where
  "ingressSSLPolicyAnnotation = ''zalando.org/aws-load-balancer-ssl-policy''"

definition ingressLoadBalancerTypeAnnotation :: string where
  "ingressLoadBalancerTypeAnnotation = ''zalando.org/aws-load-balancer-type''"

definition ingressHTTP2Annotation :: string where
  "ingressHTTP2Annotation = ''zalando.org/aws-load-balancer-http2''"

definition ingressWAFWebACLIDAnnotation :: string where
  "ingressWAFWebACLIDAnnotation = ''zalando.org/aws-waf-web-acl-id''"

definition ingressNLBExtraListenersAnnotation :: string where
  "ingressNLBExtraListenersAnnotation = ''zalando.org/aws-nlb-extra-listeners''"

definition ingressClassAnnotation :: string where
  "ingressClassAnnotation = ''kubernetes.io/ingress.class''"

type_synonym IngressType = string

definition TypeIngress :: IngressType where
  "TypeIngress = ''ingress''"

definition TypeRouteGroup :: IngressType where
  "TypeRouteGroup = ''routegroup''"

definition DefaultClusterLocalDomain :: string where
  "DefaultClusterLocalDomain = ''.cluster.local''"

definition loadBalancerTypeNLB :: string where
  "loadBalancerTypeNLB = ''nlb''"

definition loadBalancerTypeALB :: string where
  "loadBalancerTypeALB = ''alb''"

text \<open>The two scheme names of the AWS SDK (package elbv2).\<close>

definition LoadBalancerSchemeEnumInternal :: string where
  "LoadBalancerSchemeEnumInternal = ''internal''"

definition LoadBalancerSchemeEnumInternetFacing :: string where
  "LoadBalancerSchemeEnumInternetFacing = ''internet-facing''"

text \<open>
  Modelled from the spec: \<open>aws.IPAddressTypeIPV4\<close>, \<open>aws.IPAddressTypeDualstack\<close>,
  \<open>aws.LoadBalancerTypeApplication\<close> and \<open>aws.LoadBalancerTypeNetwork\<close> are declared in
  a file of package aws that is not among the sources; the specification names the IP
  address types ipv4 and dualstack and the load-balancer types application and network.
\<close>

definition IPAddressTypeIPV4 :: string where
  "IPAddressTypeIPV4 = ''ipv4''"

definition IPAddressTypeDualstack :: string where
  "IPAddressTypeDualstack = ''dualstack''"

definition LoadBalancerTypeApplication :: string where
  "LoadBalancerTypeApplication = ''application''"

definition LoadBalancerTypeNetwork :: string where
  "LoadBalancerTypeNetwork = ''network''"

definition loadBalancerTypesIngressToAWS :: "string \<rightharpoonup> string" where
  "loadBalancerTypesIngressToAWS =
     [loadBalancerTypeALB \<mapsto> LoadBalancerTypeApplication,
      loadBalancerTypeNLB \<mapsto> LoadBalancerTypeNetwork]"


text \<open>
  What \<open>newIngress\<close> takes from outside the sources: the table \<open>aws.SSLPolicies\<close>
  (its keys), declared in a file of package aws that is not among them, and
  \<open>json.Unmarshal\<close> into a slice of extra listeners, which gives the listeners or
  the message of its error.
\<close>

record deps =
  SSLPolicies :: "string set"
  jsonUnmarshal :: "string \<Rightarrow> string + ExtraListener list"

subsection \<open>The business object and the adapter\<close>

record Ingress =
  ResourceType :: IngressType
  Namespace :: string
  Name :: string
  Shared :: bool
  HTTP2 :: bool
  ClusterLocal :: bool
  CertificateARN :: string
  Hostname :: string
  ExtraListeners :: "ExtraListener list"
  Scheme :: string
  SecurityGroup :: string
  SSLPolicy :: string
  IPAddressType :: string
  LoadBalancerType :: string
  WAFWebACLID :: string
  Hostnames :: "string list"

text \<open>
  The adapter. Its two client handles (\<open>kubeClient\<close>, \<open>clientset\<close>) are connections to
  the API server: what the server answers is an input of the functions that call it,
  and the requests that change it are an output.
\<close>

record Adapter =
  cniPodNamespace :: string
  cniPodLabelSelector :: string
  ingressClient :: ingressClient
  ingressFilters :: "string list"
  ingressDefaultSecurityGroup :: string
  ingressDefaultSSLPolicy :: string
  ingressDefaultLoadBalancerType :: string
  clusterLocalDomain :: string
  routeGroupSupport :: bool
  extraCNIEndpoints :: "CNIEndpoint list"



subsection \<open>Normalisation: from a Kubernetes object to an Ingress\<close>

definition getAnnotationsString :: "(string \<rightharpoonup> string) \<Rightarrow> string \<Rightarrow> string \<Rightarrow> string" where
  "getAnnotationsString annotations key defaultValue =
     (case annotations key of Some val \<Rightarrow> val | None \<Rightarrow> defaultValue)"


text \<open>
  The loop of \<open>newIngress\<close> over the parsed extra listeners. Every listener that passes
  the protocol check gets the namespace of the object, and its endpoint is appended to
  the endpoints of the adapter; the loop returns at the first listener that fails, with
  the endpoints appended so far.
\<close>

fun newIngress_range ::
  "string \<Rightarrow> ExtraListener list \<Rightarrow> CNIEndpoint list
     \<Rightarrow> (error + ExtraListener list) \<times> CNIEndpoint list" where
  "newIngress_range ns [] eps = (Inr [], eps)"
| "newIngress_range ns (listener # rest) eps =
     (if ListenProtocol listener \<noteq> ''TCP'' \<and> ListenProtocol listener \<noteq> ''UDP''
         \<and> ListenProtocol listener \<noteq> ''TCP_UDP''
      then (Inl (ErrorsNew
              ''only TCP, UDP, or TCP_UDP are allowed as protocols for extra listeners''), eps)
      else (case newIngress_range ns rest
                   (eps @ [\<lparr>CNIEndpoint.Namespace = ns, Podlabel = PodLabel listener\<rparr>]) of
              (Inl err, eps') \<Rightarrow> (Inl err, eps')
            | (Inr ls, eps') \<Rightarrow>
                (Inr (listener\<lparr>ExtraListener.Namespace := ns\<rparr> # ls), eps')))"

text \<open>
  The block \<open>if hasExtraListeners { ... }\<close> of \<open>newIngress\<close>: the extra listeners of
  the object, or the error the block returns; the adapter with the endpoints appended.
\<close>

definition newIngress_extraListeners ::
  "deps \<Rightarrow> Adapter \<Rightarrow> kubeItemMetadata \<Rightarrow> string \<Rightarrow> (error + ExtraListener list) \<times> Adapter" where
  "newIngress_extraListeners d a metadata loadBalancerType =
     (case Annotations metadata ingressNLBExtraListenersAnnotation of
        None \<Rightarrow> (Inr [], a)
      | Some rawlisteners \<Rightarrow>
          if loadBalancerType \<noteq> loadBalancerTypeNLB
          then (Inl (ErrorsNew ''extra listeners are only supported on NLBs''), a)
          else (case jsonUnmarshal d rawlisteners of
                  Inl err \<Rightarrow>
                    (Inl (Errorf ''unable to parse aws-nlb-extra-listeners annotation: %v''
                            [Str err] None), a)
                | Inr parsed \<Rightarrow>
                    (case newIngress_range (kubeItemMetadata.Namespace metadata) parsed
                            (extraCNIEndpoints a) of
                       (r, eps) \<Rightarrow> (r, a\<lparr>extraCNIEndpoints := eps\<rparr>))))"

definition newIngress ::
  "deps \<Rightarrow> Adapter \<Rightarrow> IngressType \<Rightarrow> kubeItemMetadata \<Rightarrow> string \<Rightarrow> string list
     \<Rightarrow> (error + Ingress) \<times> Adapter" where
  "newIngress d a typ metadata host hostnames =
     (let annotations = Annotations metadata;
          scheme =
            (if getAnnotationsString annotations ingressSchemeAnnotation []
                  = LoadBalancerSchemeEnumInternal
             then LoadBalancerSchemeEnumInternal
             else LoadBalancerSchemeEnumInternetFacing);
          shared =
            (if getAnnotationsString annotations ingressSharedAnnotation [] = ''false''
             then False else True);
          ipAddressType =
            (if getAnnotationsString annotations ingressALBIPAddressType []
                  = IPAddressTypeDualstack
             then IPAddressTypeDualstack else IPAddressTypeIPV4);
          sslPolicy =
            getAnnotationsString annotations ingressSSLPolicyAnnotation
              (ingressDefaultSSLPolicy a);
          sslPolicy =
            (if sslPolicy \<in> SSLPolicies d then sslPolicy else ingressDefaultSSLPolicy a);
          hasLB = (annotations ingressLoadBalancerTypeAnnotation \<noteq> None);
          loadBalancerType =
            (case annotations ingressLoadBalancerTypeAnnotation of
               Some v \<Rightarrow> v
             | None \<Rightarrow>
                 if scheme = LoadBalancerSchemeEnumInternal then loadBalancerTypeALB
                 else ingressDefaultLoadBalancerType a);
          hasSG = (annotations ingressSecurityGroupAnnotation \<noteq> None);
          securityGroup =
            (case annotations ingressSecurityGroupAnnotation of
               Some v \<Rightarrow> v
             | None \<Rightarrow> ingressDefaultSecurityGroup a);
          hasWAF = (annotations ingressWAFWebACLIDAnnotation \<noteq> None);
          wafWebAclId = mapIndex annotations ingressWAFWebACLIDAnnotation
      in case newIngress_extraListeners d a metadata loadBalancerType of
           (Inl err, a') \<Rightarrow> (Inl err, a')
         | (Inr extraListeners, a') \<Rightarrow>
             if loadBalancerType = loadBalancerTypeNLB \<and> (hasSG \<or> hasWAF) \<and> hasLB
             then (Inl (ErrorsNew
                     ''security group or WAF are not supported by NLB (configured by annotation)''),
                   a')
             else
               (let loadBalancerType =
                      (if loadBalancerType = loadBalancerTypeNLB \<and> (hasSG \<or> hasWAF)
                       then loadBalancerTypeALB else loadBalancerType);
                    loadBalancerType =
                      (if loadBalancerTypesIngressToAWS loadBalancerType = None
                       then ingressDefaultLoadBalancerType a else loadBalancerType);
                    loadBalancerType = mapIndex loadBalancerTypesIngressToAWS loadBalancerType;
                    ipAddressType =
                      (if loadBalancerType = LoadBalancerTypeNetwork
                       then IPAddressTypeIPV4 else ipAddressType);
                    http2 =
                      (if getAnnotationsString annotations ingressHTTP2Annotation [] = ''false''
                       then False else True)
                in (Inr \<lparr>ResourceType = typ,
                         Namespace = kubeItemMetadata.Namespace metadata,
                         Name = kubeItemMetadata.Name metadata,
                         Shared = shared,
                         HTTP2 = http2,
                         ClusterLocal = (length hostnames < 1),
                         CertificateARN =
                           getAnnotationsString annotations ingressCertificateARNAnnotation [],
                         Hostname = host,
                         ExtraListeners = extraListeners,
                         Scheme = scheme,
                         SecurityGroup = securityGroup,
                         SSLPolicy = sslPolicy,
                         IPAddressType = ipAddressType,
                         LoadBalancerType = loadBalancerType,
                         WAFWebACLID = wafWebAclId,
                         Hostnames = hostnames\<rparr>, a')))"

text \<open>The first non-empty hostname of a load-balancer status, empty if there is none.\<close>

fun newIngressFromKube_host :: "ingressLoadBalancer list \<Rightarrow> string" where
  "newIngressFromKube_host [] = []"
| "newIngressFromKube_host (ingressLoadBalancer # rest) =
     (if ingressLoadBalancer.Hostname ingressLoadBalancer \<noteq> []
      then ingressLoadBalancer.Hostname ingressLoadBalancer
      else newIngressFromKube_host rest)"

fun newIngressFromKube_hostnames :: "Adapter \<Rightarrow> ingressItemRule list \<Rightarrow> string list" where
  "newIngressFromKube_hostnames a [] = []"
| "newIngressFromKube_hostnames a (rule # rest) =
     (if Host rule \<noteq> []
         \<and> (clusterLocalDomain a = [] \<or> \<not> suffix (clusterLocalDomain a) (Host rule))
      then Host rule # newIngressFromKube_hostnames a rest
      else newIngressFromKube_hostnames a rest)"

definition newIngressFromKube :: "deps \<Rightarrow> Adapter \<Rightarrow> ingress \<Rightarrow> (error + Ingress) \<times> Adapter" where
  "newIngressFromKube d a kubeIngress =
     newIngress d a TypeIngress (ingress.Metadata kubeIngress)
       (newIngressFromKube_host
          (Ingress (ingressStatus.LoadBalancer (ingress.Status kubeIngress))))
       (newIngressFromKube_hostnames a (Rules (ingress.Spec kubeIngress)))"

fun newIngressFromRouteGroup_host :: "routegroupLoadBalancer list \<Rightarrow> string" where
  "newIngressFromRouteGroup_host [] = []"
| "newIngressFromRouteGroup_host (lb # rest) =
     (if routegroupLoadBalancer.Hostname lb \<noteq> []
      then routegroupLoadBalancer.Hostname lb
      else newIngressFromRouteGroup_host rest)"

fun newIngressFromRouteGroup_hostnames :: "Adapter \<Rightarrow> string list \<Rightarrow> string list" where
  "newIngressFromRouteGroup_hostnames a [] = []"
| "newIngressFromRouteGroup_hostnames a (host # rest) =
     (if host \<noteq> [] \<and> (clusterLocalDomain a = [] \<or> \<not> suffix (clusterLocalDomain a) host)
      then host # newIngressFromRouteGroup_hostnames a rest
      else newIngressFromRouteGroup_hostnames a rest)"

definition newIngressFromRouteGroup ::
  "deps \<Rightarrow> Adapter \<Rightarrow> routegroup \<Rightarrow> (error + Ingress) \<times> Adapter" where
  "newIngressFromRouteGroup d a rg =
     newIngress d a TypeRouteGroup (routegroup.Metadata rg)
       (newIngressFromRouteGroup_host
          (Routegroup (routegroupStatus.LoadBalancer (routegroup.Status rg))))
       (newIngressFromRouteGroup_hostnames a (Hosts (routegroup.Spec rg)))"

subsection \<open>Listing\<close>









text \<open>
  The answers of the API server during one call of \<open>ListResources\<close>, and the listing
  requests the call makes, in order.
\<close>

record kubeAPI =
  listIngress :: "error + ingressList"
  listRoutegroups :: "error + routegroupList"




subsection \<open>Status write-back\<close>

text \<open>
  A PATCH request, as the client sends it: for an ingress the resource path and the
  status that is the body (\<open>json.Marshal\<close> of this struct does not fail), for a
  RouteGroup the namespace, the name and the new hostname. \<open>client.patch\<close> is an
  input: the error of the request, if any.
\<close>

datatype patch =
    PatchIngress string patchIngressStatus
  | PatchRoutegroup string string string

definition updateIngressLoadBalancer ::
  "(patch \<Rightarrow> error option) \<Rightarrow> ingressClient \<Rightarrow> string \<Rightarrow> string \<Rightarrow> string
     \<Rightarrow> error option \<times> patch list" where
  "updateIngressLoadBalancer c ic ns name newHostName =
     (let patchStatus =
            \<lparr>patchIngressStatus.Status =
               \<lparr>ingressStatus.LoadBalancer =
                  \<lparr>Ingress = [\<lparr>ingressLoadBalancer.Hostname = newHostName\<rparr>]\<rparr>\<rparr>\<rparr>;
          resource =
            ''/apis/'' @ apiVersion ic @ ''/namespaces/'' @ ns @ ''/ingresses/'' @ name
              @ ''/status''
      in case c (PatchIngress resource patchStatus) of
           Some err \<Rightarrow>
             (Some (Errorf ''failed to patch ingress %s/%s = %q: %w''
                      [Str ns, Str name, Str newHostName] (Some err)),
              [PatchIngress resource patchStatus])
         | None \<Rightarrow> (None, [PatchIngress resource patchStatus]))"

text \<open>
  Modelled from the spec: \<open>updateRoutegroupLoadBalancer\<close> is in a file of the package
  that is not among the sources. The specification has it patch the status of the
  RouteGroup as \<open>updateIngressLoadBalancer\<close> patches that of the ingress: one PATCH
  request with the new hostname for the object of that namespace and name.
\<close>

definition updateRoutegroupLoadBalancer ::
  "(patch \<Rightarrow> error option) \<Rightarrow> string \<Rightarrow> string \<Rightarrow> string \<Rightarrow> error option \<times> patch list" where
  "updateRoutegroupLoadBalancer c ns name newHostName =
     (c (PatchRoutegroup ns name newHostName), [PatchRoutegroup ns name newHostName])"

definition UpdateIngressLoadBalancer ::
  "(patch \<Rightarrow> error option) \<Rightarrow> Adapter \<Rightarrow> Ingress option \<Rightarrow> string
     \<Rightarrow> error option \<times> patch list" where
  "UpdateIngressLoadBalancer c a ingress loadBalancerDNSName =
     (case ingress of
        None \<Rightarrow> (Some ErrInvalidIngressUpdateParams, [])
      | Some ing \<Rightarrow>
          if loadBalancerDNSName = [] then (Some ErrInvalidIngressUpdateParams, [])
          else
            (let loadBalancerDNSName =
                   (if loadBalancerDNSName = DefaultClusterLocalDomain then []
                    else loadBalancerDNSName)
             in if Ingress.Hostname ing = loadBalancerDNSName then (Some ErrUpdateNotNeeded, [])
                else if ResourceType ing = TypeRouteGroup
                then updateRoutegroupLoadBalancer c (Ingress.Namespace ing) (Ingress.Name ing)
                       loadBalancerDNSName
                else if ResourceType ing = TypeIngress
                then updateIngressLoadBalancer c (ingressClient a) (Ingress.Namespace ing)
                       (Ingress.Name ing) loadBalancerDNSName
                else (Some (Errorf
                        (''unknown resourceType '' @ [CHR 0x27] @ ''%s'' @ [CHR 0x27]
                           @ '', failed to update Kubernetes resource'')
                        [Str (ResourceType ing)] None), [])))"

section \<open>Example inputs\<close>

text \<open>
  An adapter as \<open>NewAdapter\<close> builds it for a controller whose default load balancer is
  a network load balancer, an ingress object with one routing host, and stacks with
  given certificates or a given status.
\<close>

definition demoDeps :: deps where
  "demoDeps = \<lparr>SSLPolicies = {''ELBSecurityPolicy-2016-08''},
               jsonUnmarshal = (\<lambda>raw. Inl ''unexpected end of JSON input'')\<rparr>"

definition demoAdapter :: Adapter where
  "demoAdapter = \<lparr>cniPodNamespace = [], cniPodLabelSelector = [],
     ingressClient = \<lparr>apiVersion = ''networking.k8s.io/v1''\<rparr>,
     ingressFilters = [],
     ingressDefaultSecurityGroup = ''sg-default'',
     ingressDefaultSSLPolicy = ''ELBSecurityPolicy-2016-08'',
     ingressDefaultLoadBalancerType = ''nlb'',
     clusterLocalDomain = ''.cluster.local'',
     routeGroupSupport = True,
     extraCNIEndpoints = []\<rparr>"

definition demoMetadata :: "(string \<rightharpoonup> string) \<Rightarrow> kubeItemMetadata" where
  "demoMetadata annotations = \<lparr>kubeItemMetadata.Namespace = ''default'',
     kubeItemMetadata.Name = ''myingress'', UID = [], Annotations = annotations,
     kubeItemMetadata.SelfLink = [], kubeItemMetadata.ResourceVersion = [], Generation = 0,
     CreationTimestamp = 0, DeletionTimestamp = 0, Labels = Map.empty\<rparr>"

definition demoIngress :: "(string \<rightharpoonup> string) \<Rightarrow> string \<Rightarrow> ingress" where
  "demoIngress annotations statusHostname =
     \<lparr>ingress.Metadata = demoMetadata annotations,
      ingress.Spec = \<lparr>Rules = [\<lparr>Host = ''foo.bar.org''\<rparr>], IngressClassName = []\<rparr>,
      ingress.Status = \<lparr>ingressStatus.LoadBalancer =
         \<lparr>Ingress = [\<lparr>ingressLoadBalancer.Hostname = statusHostname\<rparr>]\<rparr>\<rparr>\<rparr>"

text \<open>
  What \<open>newIngress\<close> makes of the example object when its annotations leave every
  field but the load-balancer type to the defaults.
\<close>

definition demoRecord :: "string \<Rightarrow> Ingress" where
  "demoRecord loadBalancerType =
     \<lparr>ResourceType = ''ingress'', Namespace = ''default'', Name = ''myingress'',
      Shared = True, HTTP2 = True, ClusterLocal = False, CertificateARN = [],
      Hostname = [], ExtraListeners = [], Scheme = ''internet-facing'',
      SecurityGroup = ''sg-default'', SSLPolicy = ''ELBSecurityPolicy-2016-08'',
      IPAddressType = ''ipv4'', LoadBalancerType = loadBalancerType, WAFWebACLID = [],
      Hostnames = [''foo.bar.org'']\<rparr>"

definition demoStack :: "(string \<times> time) list \<Rightarrow> Stack" where
  "demoStack certs = emptyStack\<lparr>CertificateARNs := certs\<rparr>"

definition demoStatusStack :: "string \<Rightarrow> string \<Rightarrow> Stack" where
  "demoStatusStack st reason = emptyStack\<lparr>status := st, statusReason := reason\<rparr>"

text \<open>
  A client whose PATCH requests all succeed, a list as the server sends it, and the
  answers of a server that forbids the listing of RouteGroups.
\<close>

definition demoClient :: "patch \<Rightarrow> error option" where
  "demoClient p = None"

definition demoIngressList :: "ingress list \<Rightarrow> ingressList" where
  "demoIngressList items = \<lparr>Kind = ''IngressList'', APIVersion = ''networking.k8s.io/v1'',
     ingressList.Metadata = \<lparr>ingressListMetadata.SelfLink = [],
                             ingressListMetadata.ResourceVersion = []\<rparr>,
     ingressList.Items = items\<rparr>"

definition demoAPI :: kubeAPI where
  "demoAPI = \<lparr>listIngress = Inr (demoIngressList [demoIngress Map.empty []]),
              listRoutegroups = Inl ErrNoPermissionToAccessResource\<rparr>"

section \<open>Stack lifecycle\<close>

lemmas StackStatus_defs =
  StackStatusCreateInProgress_def StackStatusCreateComplete_def
  StackStatusRollbackInProgress_def StackStatusRollbackComplete_def
  StackStatusDeleteInProgress_def StackStatusDeleteComplete_def
  StackStatusUpdateInProgress_def StackStatusUpdateCompleteCleanupInProgress_def
  StackStatusUpdateComplete_def StackStatusUpdateRollbackComplete_def

lemma ShouldDelete_range_iff:
  "ShouldDelete_range now certs \<longleftrightarrow> (\<forall>(arn, t) \<in> set certs. \<not> IsZero t \<and> t \<le> now)"
  by (induction now certs rule: ShouldDelete_range.induct) (auto simp: After_def)

text \<open>
  C1, as the code has it. A stack that is not nil is eligible for deletion exactly when
  every TTL of its certificates is a non-zero instant that is not after now. The zero
  instant stands for a TTL that is not known, and keeps the stack.
\<close>

theorem ShouldDelete_iff_all_expired:
  "ShouldDelete now (Some s) \<longleftrightarrow>
     (\<forall>(arn, t) \<in> set (CertificateARNs s). \<not> IsZero t \<and> t \<le> now)"
  by (simp add: ShouldDelete_def ShouldDelete_range_iff)

theorem ShouldDelete_iff_all_expired_witness:
  "CertificateARNs (demoStack [(''arn:a'', 400), (''arn:b'', 1000)])
     = [(''arn:a'', 400), (''arn:b'', 1000)]
   \<and> \<not> IsZero 400 \<and> (400 :: time) \<le> 1000
   \<and> \<not> IsZero 1000 \<and> (1000 :: time) \<le> 1000
   \<and> ShouldDelete 1000 (Some (demoStack [(''arn:a'', 400), (''arn:b'', 1000)]))"
proof -
  have h: "\<forall>(arn, t) \<in> set (CertificateARNs (demoStack [(''arn:a'', 400), (''arn:b'', 1000)])).
             \<not> IsZero t \<and> t \<le> 1000"
    by (simp add: demoStack_def IsZero_def)
  have "ShouldDelete 1000 (Some (demoStack [(''arn:a'', 400), (''arn:b'', 1000)]))"
    using h ShouldDelete_iff_all_expired
            [of 1000 "demoStack [(''arn:a'', 400), (''arn:b'', 1000)]"]
    by blast
  then show ?thesis
    by (simp add: demoStack_def IsZero_def)
qed

text \<open>
  C1, as the specification states it, fails: the only TTL of this stack is the zero
  instant, which is not after now, and the stack is not eligible.
\<close>

theorem ShouldDelete_zero_ttl_counterexample:
  "CertificateARNs (demoStack [(''arn:a'', 0)]) = [(''arn:a'', 0)]
   \<and> (0 :: time) \<le> 1000
   \<and> \<not> ShouldDelete 1000 (Some (demoStack [(''arn:a'', 0)]))"
  by (simp add: demoStack_def ShouldDelete_def IsZero_def)

text \<open>
  C2. A stack with a certificate whose TTL is the zero instant or after now is not
  eligible for deletion.
\<close>

theorem ShouldDelete_false_if_zero_or_future:
  assumes "(arn, t) \<in> set (CertificateARNs s)"
      and "IsZero t \<or> After t now"
  shows "\<not> ShouldDelete now (Some s)"
proof -
  from assms(2) have "\<not> (\<not> IsZero t \<and> t \<le> now)"
    by (auto simp: After_def)
  with assms(1) show ?thesis
    unfolding ShouldDelete_def by (auto simp: ShouldDelete_range_iff)
qed

theorem ShouldDelete_false_if_zero_or_future_witness:
  "(''arn:a'', 87400) \<in> set (CertificateARNs (demoStack [(''arn:b'', 400), (''arn:a'', 87400)]))
   \<and> (IsZero 87400 \<or> After 87400 1000)
   \<and> \<not> ShouldDelete 1000 (Some (demoStack [(''arn:b'', 400), (''arn:a'', 87400)]))"
proof -
  have h1: "(''arn:a'', 87400)
              \<in> set (CertificateARNs (demoStack [(''arn:b'', 400), (''arn:a'', 87400)]))"
    by (simp add: demoStack_def)
  have h2: "IsZero 87400 \<or> After 87400 1000"
    by (simp add: After_def)
  from ShouldDelete_false_if_zero_or_future [OF h1 h2] h1 h2 show ?thesis
    by simp
qed

text \<open>
  C10. \<open>ShouldDelete\<close> of the nil stack is false, and a stack without certificates is
  eligible for deletion.
\<close>

theorem ShouldDelete_nil_and_empty:
  "\<not> ShouldDelete now None \<and> (CertificateARNs s = [] \<longrightarrow> ShouldDelete now (Some s))"
  by (simp add: ShouldDelete_def)

theorem ShouldDelete_nil_and_empty_witness:
  "CertificateARNs emptyStack = []
   \<and> ShouldDelete 1000 (Some emptyStack) \<and> \<not> ShouldDelete 1000 None"
  using ShouldDelete_nil_and_empty [of 1000 emptyStack]
  by (simp add: emptyStack_def)

text \<open>
  C4, as the code has it. A stack is complete exactly in the four statuses
  \<open>CREATE_COMPLETE\<close>, \<open>UPDATE_COMPLETE\<close>, \<open>ROLLBACK_COMPLETE\<close> and
  \<open>UPDATE_ROLLBACK_COMPLETE\<close>. \<open>Err\<close> is nil exactly in the seven statuses
  \<open>CREATE_IN_PROGRESS\<close>, \<open>CREATE_COMPLETE\<close>, \<open>UPDATE_IN_PROGRESS\<close>, \<open>UPDATE_COMPLETE\<close>,
  \<open>UPDATE_COMPLETE_CLEANUP_IN_PROGRESS\<close>, \<open>DELETE_IN_PROGRESS\<close> and \<open>DELETE_COMPLETE\<close>;
  in every other status it is an error with the status and, when there is one, the
  reason.
\<close>

theorem IsComplete_and_Err_by_status:
  "(IsComplete (Some s) \<longleftrightarrow>
      status s \<in> {StackStatusCreateComplete, StackStatusUpdateComplete,
                  StackStatusRollbackComplete, StackStatusUpdateRollbackComplete})
   \<and> (Err (Some s) = None \<longleftrightarrow>
        status s \<in> {StackStatusCreateInProgress, StackStatusCreateComplete,
                    StackStatusUpdateInProgress, StackStatusUpdateComplete,
                    StackStatusUpdateCompleteCleanupInProgress,
                    StackStatusDeleteInProgress, StackStatusDeleteComplete})
   \<and> (Err (Some s) \<noteq> None \<longrightarrow>
        Err (Some s) =
          Some (if statusReason s \<noteq> []
                then Errorf ''unexpected status %s: %s''
                       [Str (status s), Str (statusReason s)] None
                else Errorf ''unexpected status %s'' [Str (status s)] None))"
  by (simp add: IsComplete_def Err_def)

theorem IsComplete_and_Err_by_status_witness:
  "IsComplete (Some (demoStatusStack StackStatusRollbackComplete ''failed''))
   \<and> Err (Some (demoStatusStack StackStatusRollbackComplete ''failed'')) \<noteq> None
   \<and> Err (Some (demoStatusStack StackStatusRollbackComplete ''failed''))
       = Some (Errorf ''unexpected status %s: %s''
                 [Str ''ROLLBACK_COMPLETE'', Str ''failed''] None)
   \<and> Err (Some (demoStatusStack StackStatusDeleteInProgress [])) = None"
  using IsComplete_and_Err_by_status
          [of "demoStatusStack StackStatusRollbackComplete ''failed''"]
        IsComplete_and_Err_by_status [of "demoStatusStack StackStatusDeleteInProgress []"]
  by (simp add: demoStatusStack_def StackStatus_defs)

text \<open>
  C4, as the specification states it, fails twice. \<open>ROLLBACK_IN_PROGRESS\<close> is an
  in-progress status for which \<open>Err\<close> is an error. \<open>DELETE_COMPLETE\<close> is neither one
  of the four complete statuses nor in progress, and \<open>Err\<close> is nil for it.
\<close>

theorem Err_by_status_counterexample:
  "inProgressStatus StackStatusRollbackInProgress
   \<and> Err (Some (demoStatusStack StackStatusRollbackInProgress []))
       = Some (Errorf ''unexpected status %s'' [Str ''ROLLBACK_IN_PROGRESS''] None)
   \<and> \<not> inProgressStatus StackStatusDeleteComplete
   \<and> \<not> IsComplete (Some (demoStatusStack StackStatusDeleteComplete []))
   \<and> Err (Some (demoStatusStack StackStatusDeleteComplete [])) = None"
  by (simp add: inProgressStatus_def suffix_to_prefix IsComplete_def Err_def
        demoStatusStack_def StackStatus_defs)

section \<open>Stack inventory\<close>

lemma mapIndex_upd: "mapIndex (m(k \<mapsto> v)) k' = (if k' = k then v else mapIndex m k')"
  by (simp add: mapIndex_def)

lemma mapIndex_empty: "mapIndex Map.empty k = []"
  by (simp add: mapIndex_def)

lemma mapIndex_range:
  "mapIndex (convertCloudFormationTags_range cfTags m) k =
     (case filter (\<lambda>t. StringValue (Key t) = k) cfTags of
        [] \<Rightarrow> mapIndex m k
      | t # ts \<Rightarrow> StringValue (Value (last (t # ts))))"
proof (induction cfTags arbitrary: m)
  case Nil
  then show ?case by simp
next
  case (Cons tag rest)
  show ?case
    by (simp add: Cons.IH mapIndex_upd split: list.splits)
qed

lemma mapIndex_convert: "mapIndex (convertCloudFormationTags cfTags) k = tagValue cfTags k"
  unfolding convertCloudFormationTags_def tagValue_def mapIndex_range
  by (simp add: mapIndex_empty split: list.splits)

text \<open>
  C3, as the code has it. A stack is accepted exactly when its application tag has the
  controller id as value and, besides, its cluster tag has the value \<open>owned\<close> or its
  legacy cluster tag has the cluster id as value. The value of a tag is that of the
  last tag of the list with the key, and empty when there is no such tag.
\<close>

theorem isManagedStack_iff:
  "isManagedStack cfTags clusterID controllerID \<longleftrightarrow>
     tagValue cfTags kubernetesCreatorTag = controllerID
     \<and> (tagValue cfTags (clusterIDTagPrefix @ clusterID) = resourceLifecycleOwned
        \<or> tagValue cfTags clusterIDTag = clusterID)"
  by (simp add: isManagedStack_def Let_def mapIndex_convert)

text \<open>
  C3, as the specification states it, fails: a stack with the legacy cluster tag alone
  is not accepted.
\<close>

theorem isManagedStack_legacy_only_counterexample:
  "isManagedStack_spec [\<lparr>Key = Some clusterIDTag, Value = Some ''kube-1''\<rparr>] ''kube-1'' ''ctrl''
   \<and> \<not> isManagedStack [\<lparr>Key = Some clusterIDTag, Value = Some ''kube-1''\<rparr>] ''kube-1'' ''ctrl''"
  by (simp add: isManagedStack_spec_def isManagedStack_def Let_def
        convertCloudFormationTags_def mapIndex_def StringValue_def
        kubernetesCreatorTag_def clusterIDTag_def)

text \<open>
  \<open>findManagedStacks\<close> has no other test: when the listing succeeds and every accepted
  stack decodes, it returns the decoded stacks of exactly the stacks of all pages that
  \<open>isManagedStack\<close> accepts, in their order.
\<close>

lemma findManagedStacks_range_accepts:
  "fst (findManagedStacks_range mapToManagedStack clusterID controllerID ss (stacks, errors))
   = stacks @ map (\<lambda>s. case mapToManagedStack s of Inl err \<Rightarrow> emptyStack | Inr st \<Rightarrow> st)
                (filter (\<lambda>s. isManagedStack (Tags s) clusterID controllerID) ss)"
  by (induction ss arbitrary: stacks errors) (simp_all split: sum.splits)

lemma findManagedStacks_pages_accepts:
  "fst (findManagedStacks_pages mapToManagedStack clusterID controllerID pages acc)
   = fst acc @ map (\<lambda>s. case mapToManagedStack s of Inl err \<Rightarrow> emptyStack | Inr st \<Rightarrow> st)
                (filter (\<lambda>s. isManagedStack (Tags s) clusterID controllerID) (concat pages))"
proof (induction pages arbitrary: acc)
  case Nil
  show ?case by simp
next
  case (Cons page pages)
  obtain stacks errors where acc: "acc = (stacks, errors)"
    by (cases acc)
  show ?case
    by (simp add: Cons.IH acc findManagedStacks_range_accepts)
qed

lemma findManagedStacks_accepts:
  assumes "findManagedStacks mapToManagedStack (pages, None) clusterID controllerID = Inr stacks"
  shows "stacks = map (\<lambda>s. case mapToManagedStack s of Inl err \<Rightarrow> emptyStack | Inr st \<Rightarrow> st)
                    (filter (\<lambda>s. isManagedStack (Tags s) clusterID controllerID) (concat pages))"
proof -
  obtain ss es where r: "findManagedStacks_pages mapToManagedStack clusterID controllerID
                           pages ([], []) = (ss, es)"
    by (cases "findManagedStacks_pages mapToManagedStack clusterID controllerID pages ([], [])")
  from assms r have "stacks = ss"
    by (simp add: findManagedStacks_def split: if_splits)
  with r findManagedStacks_pages_accepts
         [of mapToManagedStack clusterID controllerID pages "([], [])"]
  show ?thesis by simp
qed

section \<open>Normalisation of ingresses\<close>

lemmas annotation_defs =
  ingressALBIPAddressType_def ingressCertificateARNAnnotation_def ingressSchemeAnnotation_def
  ingressSharedAnnotation_def ingressSecurityGroupAnnotation_def ingressSSLPolicyAnnotation_def
  ingressLoadBalancerTypeAnnotation_def ingressHTTP2Annotation_def
  ingressWAFWebACLIDAnnotation_def ingressNLBExtraListenersAnnotation_def
  ingressClassAnnotation_def

lemmas type_defs =
  loadBalancerTypeNLB_def loadBalancerTypeALB_def LoadBalancerSchemeEnumInternal_def
  LoadBalancerSchemeEnumInternetFacing_def IPAddressTypeIPV4_def IPAddressTypeDualstack_def
  LoadBalancerTypeApplication_def LoadBalancerTypeNetwork_def

lemmas demo_defs = demoDeps_def demoAdapter_def demoMetadata_def demoIngress_def demoRecord_def
  demoIngressList_def demoAPI_def

lemmas eval_defs = newIngress_def newIngress_extraListeners_def Let_def getAnnotationsString_def
  mapIndex_def loadBalancerTypesIngressToAWS_def annotation_defs type_defs

lemmas kube_eval = newIngressFromKube_def newIngressFromRouteGroup_def eval_defs demo_defs
  TypeIngress_def TypeRouteGroup_def suffix_to_prefix

text \<open>
  The adapter that \<open>newIngress\<close> returns is the one it was given but for the CNI
  endpoints, and its result does not depend on them.
\<close>

lemma fst_step:
  "fst (case p of (Inl err, s) \<Rightarrow> (Inl err, s)
        | (Inr x, s) \<Rightarrow> (if c then (Inl e, s) else (Inr (h x), s)))
   = (case fst p of Inl err \<Rightarrow> Inl err | Inr x \<Rightarrow> if c then Inl e else Inr (h x))"
  by (cases p) (auto split: sum.splits)

lemma snd_step:
  "snd (case p of (Inl err, s) \<Rightarrow> (Inl err, s)
        | (Inr x, s) \<Rightarrow> (if c then (Inl e, s) else (Inr (h x), s)))
   = snd p"
  by (cases p) (auto split: sum.splits)

lemma newIngress_range_fst:
  "fst (newIngress_range ns ls eps) = fst (newIngress_range ns ls eps')"
proof (induction ls arbitrary: eps eps')
  case Nil
  show ?case by simp
next
  case (Cons l ls)
  have step: "fst (case p of (Inl err, x) \<Rightarrow> (Inl err, x) | (Inr xs, x) \<Rightarrow> (Inr (g xs), x))
      = (case fst p of Inl err \<Rightarrow> Inl err | Inr xs \<Rightarrow> Inr (g xs))"
    for p :: "(error + ExtraListener list) \<times> CNIEndpoint list" and g
    by (cases p) (auto split: sum.splits)
  show ?case
    by (simp add: step
          Cons.IH [of "eps @ [\<lparr>CNIEndpoint.Namespace = ns, Podlabel = PodLabel l\<rparr>]"
                      "eps' @ [\<lparr>CNIEndpoint.Namespace = ns, Podlabel = PodLabel l\<rparr>]"])
qed

lemma extraListeners_snd:
  "\<exists>eps'. snd (newIngress_extraListeners d a m t) = a\<lparr>extraCNIEndpoints := eps'\<rparr>"
proof -
  have "a = a\<lparr>extraCNIEndpoints := extraCNIEndpoints a\<rparr>" by simp
  then have self: "\<exists>eps'. a = a\<lparr>extraCNIEndpoints := eps'\<rparr>" by blast
  show ?thesis
    unfolding newIngress_extraListeners_def
    using self by (auto split: option.splits sum.splits prod.splits)
qed

lemma extraListeners_fst:
  "fst (newIngress_extraListeners d (a\<lparr>extraCNIEndpoints := eps\<rparr>) m t)
   = fst (newIngress_extraListeners d a m t)"
proof -
  have "fst (case p of (r, x) \<Rightarrow> (r, f x)) = fst p" for p :: "(error + ExtraListener list) \<times> CNIEndpoint list" and f :: "CNIEndpoint list \<Rightarrow> Adapter"
    by (cases p) simp
  then show ?thesis
    unfolding newIngress_extraListeners_def
    using newIngress_range_fst [where ns = "kubeItemMetadata.Namespace m" and eps = eps and eps' = "extraCNIEndpoints a"]
    by (auto split: option.splits sum.splits)
qed

lemma newIngress_snd:
  "\<exists>eps'. snd (newIngress d a typ m host hs) = a\<lparr>extraCNIEndpoints := eps'\<rparr>"
  unfolding newIngress_def Let_def snd_step by (rule extraListeners_snd)

lemma newIngress_fst:
  "fst (newIngress d (a\<lparr>extraCNIEndpoints := eps\<rparr>) typ m host hs)
   = fst (newIngress d a typ m host hs)"
  unfolding newIngress_def Let_def fst_step
  by (simp add: extraListeners_fst split del: if_split cong: if_cong option.case_cong sum.case_cong)

lemma hostnames_indep:
  "newIngressFromKube_hostnames (a\<lparr>extraCNIEndpoints := eps\<rparr>) rules
   = newIngressFromKube_hostnames a rules"
  by (induction rules) simp_all

lemma rg_hostnames_indep:
  "newIngressFromRouteGroup_hostnames (a\<lparr>extraCNIEndpoints := eps\<rparr>) hosts
   = newIngressFromRouteGroup_hostnames a hosts"
  by (induction hosts) simp_all







lemma if_Inl_Inr_eq:
  "((if c then (Inl e, s) else (Inr v, t)) = (Inr w, u)) = (\<not> c \<and> v = w \<and> t = u)"
  by simp



text \<open>
  C7. A record that \<open>newIngress\<close> returns with the load-balancer type network has the
  IP address type ipv4, whatever the annotation for the IP address type asks for.
\<close>

theorem network_implies_ipv4:
  assumes "newIngress d a typ metadata host hostnames = (Inr ing, a')"
      and "Ingress.LoadBalancerType ing = LoadBalancerTypeNetwork"
  shows "IPAddressType ing = IPAddressTypeIPV4"
  using assms unfolding newIngress_def Let_def
  by (auto simp: if_Inl_Inr_eq split: prod.splits sum.splits)

theorem network_implies_ipv4_witness:
  "newIngress demoDeps demoAdapter TypeIngress
     (demoMetadata [ingressLoadBalancerTypeAnnotation \<mapsto> ''nlb'',
                    ingressALBIPAddressType \<mapsto> ''dualstack''])
     [] [''foo.bar.org'']
   = (Inr (demoRecord ''network''), demoAdapter)
   \<and> Ingress.LoadBalancerType (demoRecord ''network'') = LoadBalancerTypeNetwork
   \<and> IPAddressType (demoRecord ''network'') = IPAddressTypeIPV4"
proof -
  have h1: "newIngress demoDeps demoAdapter TypeIngress
     (demoMetadata [ingressLoadBalancerTypeAnnotation \<mapsto> ''nlb'',
                    ingressALBIPAddressType \<mapsto> ''dualstack''])
     [] [''foo.bar.org'']
   = (Inr (demoRecord ''network''), demoAdapter)"
    by (simp add: kube_eval)
  have h2: "Ingress.LoadBalancerType (demoRecord ''network'') = LoadBalancerTypeNetwork"
    by (simp add: demoRecord_def type_defs)
  from network_implies_ipv4 [OF h1 h2] h1 h2 show ?thesis
    by simp
qed



text \<open>
  C6, as the code has it. An ingress has no load-balancer type annotation, its scheme is
  not internal and the default type of the controller is \<open>nlb\<close>, so that its type
  resolves to \<open>nlb\<close>. If the security-group or the WAF annotation is set on the ingress
  and the block of the extra listeners returns no error, the normalisation returns
  a record with the load-balancer type application, and no error.
\<close>

theorem default_NLB_with_SG_or_WAF_annotation_is_demoted:
  assumes "Annotations metadata ingressLoadBalancerTypeAnnotation = None"
      and "getAnnotationsString (Annotations metadata) ingressSchemeAnnotation []
             \<noteq> LoadBalancerSchemeEnumInternal"
      and "ingressDefaultLoadBalancerType a = loadBalancerTypeNLB"
      and "Annotations metadata ingressSecurityGroupAnnotation \<noteq> None
           \<or> Annotations metadata ingressWAFWebACLIDAnnotation \<noteq> None"
      and "newIngress_extraListeners d a metadata loadBalancerTypeNLB = (Inr extraListeners, a')"
  shows "\<exists>ing. newIngress d a typ metadata host hostnames = (Inr ing, a')
              \<and> Ingress.LoadBalancerType ing = LoadBalancerTypeApplication
              \<and> Ingress.ExtraListeners ing = extraListeners"
  unfolding newIngress_def Let_def using assms
  by (auto simp: mapIndex_def loadBalancerTypesIngressToAWS_def type_defs)

theorem default_NLB_with_SG_or_WAF_annotation_is_demoted_witness:
  "Annotations (demoMetadata [ingressWAFWebACLIDAnnotation \<mapsto> ''abc''])
     ingressLoadBalancerTypeAnnotation = None
   \<and> getAnnotationsString (Annotations (demoMetadata [ingressWAFWebACLIDAnnotation \<mapsto> ''abc'']))
       ingressSchemeAnnotation [] \<noteq> LoadBalancerSchemeEnumInternal
   \<and> ingressDefaultLoadBalancerType demoAdapter = loadBalancerTypeNLB
   \<and> Annotations (demoMetadata [ingressWAFWebACLIDAnnotation \<mapsto> ''abc''])
       ingressWAFWebACLIDAnnotation \<noteq> None
   \<and> newIngress_extraListeners demoDeps demoAdapter
       (demoMetadata [ingressWAFWebACLIDAnnotation \<mapsto> ''abc'']) loadBalancerTypeNLB
       = (Inr [], demoAdapter)
   \<and> newIngress demoDeps demoAdapter TypeIngress
       (demoMetadata [ingressWAFWebACLIDAnnotation \<mapsto> ''abc'']) [] [''foo.bar.org'']
       = (Inr ((demoRecord ''application'')\<lparr>Ingress.WAFWebACLID := ''abc''\<rparr>), demoAdapter)
   \<and> Ingress.LoadBalancerType ((demoRecord ''application'')\<lparr>Ingress.WAFWebACLID := ''abc''\<rparr>)
       = LoadBalancerTypeApplication"
proof -
  let ?m = "demoMetadata [ingressWAFWebACLIDAnnotation \<mapsto> ''abc'']"
  have h1: "Annotations ?m ingressLoadBalancerTypeAnnotation = None"
    by (simp add: demo_defs annotation_defs)
  have h2: "getAnnotationsString (Annotations ?m) ingressSchemeAnnotation []
              \<noteq> LoadBalancerSchemeEnumInternal"
    by (simp add: demo_defs annotation_defs type_defs getAnnotationsString_def)
  have h3: "ingressDefaultLoadBalancerType demoAdapter = loadBalancerTypeNLB"
    by (simp add: demo_defs type_defs)
  have h4: "Annotations ?m ingressSecurityGroupAnnotation \<noteq> None
            \<or> Annotations ?m ingressWAFWebACLIDAnnotation \<noteq> None"
    by (simp add: demo_defs annotation_defs)
  have h5: "newIngress_extraListeners demoDeps demoAdapter ?m loadBalancerTypeNLB
              = (Inr [], demoAdapter)"
    by (simp add: newIngress_extraListeners_def demo_defs annotation_defs)
  have r: "newIngress demoDeps demoAdapter TypeIngress ?m [] [''foo.bar.org'']
       = (Inr ((demoRecord ''application'')\<lparr>Ingress.WAFWebACLID := ''abc''\<rparr>), demoAdapter)"
    by (simp add: kube_eval)
  from default_NLB_with_SG_or_WAF_annotation_is_demoted
         [OF h1 h2 h3 h4 h5, of TypeIngress "[]" "[''foo.bar.org'']"] r
  have "Ingress.LoadBalancerType ((demoRecord ''application'')\<lparr>Ingress.WAFWebACLID := ''abc''\<rparr>)
          = LoadBalancerTypeApplication"
    by auto
  with h1 h2 h3 h5 r show ?thesis
    by (simp add: demo_defs annotation_defs)
qed

text \<open>
  C6, as the specification states it, fails twice. With no annotation at all the default
  security group applies to the ingress, and its type stays network. With the WAF
  annotation and an extra-listeners annotation that does not parse, the normalisation
  reports an error.
\<close>

theorem default_NLB_with_default_SG_counterexample:
  "Annotations (demoMetadata Map.empty) ingressLoadBalancerTypeAnnotation = None
   \<and> ingressDefaultLoadBalancerType demoAdapter = loadBalancerTypeNLB
   \<and> newIngress demoDeps demoAdapter TypeIngress (demoMetadata Map.empty) [] [''foo.bar.org'']
       = (Inr (demoRecord LoadBalancerTypeNetwork), demoAdapter)
   \<and> Ingress.SecurityGroup (demoRecord LoadBalancerTypeNetwork) = ''sg-default''
   \<and> Ingress.LoadBalancerType (demoRecord LoadBalancerTypeNetwork) \<noteq> LoadBalancerTypeApplication
   \<and> newIngress demoDeps demoAdapter TypeIngress
       (demoMetadata [ingressWAFWebACLIDAnnotation \<mapsto> ''abc'',
                      ingressNLBExtraListenersAnnotation \<mapsto> ''[''])
       [] [''foo.bar.org'']
       = (Inl (Errorf ''unable to parse aws-nlb-extra-listeners annotation: %v''
                 [Str ''unexpected end of JSON input''] None), demoAdapter)"
  by (simp add: kube_eval)

section \<open>Status write-back\<close>

lemma host_step:
  assumes "\<And>x. upd (h x) = h' x"
  shows "(case r of Inl err \<Rightarrow> Inl err | Inr x \<Rightarrow> if c then Inl e else Inr (h' x))
         = (case (case r of Inl err \<Rightarrow> Inl err | Inr x \<Rightarrow> if c then Inl e else Inr (h x)) of
              Inl err \<Rightarrow> Inl err
            | Inr ing \<Rightarrow> Inr (upd ing))"
  by (cases r; cases c) (simp_all add: assms)

lemma newIngress_host:
  "fst (newIngress d a typ m host' hs)
   = (case fst (newIngress d a typ m host hs) of
        Inl err \<Rightarrow> Inl err
      | Inr ing \<Rightarrow> Inr (ing\<lparr>Ingress.Hostname := host'\<rparr>))"
  unfolding newIngress_def Let_def fst_step
  by (rule host_step) simp

lemma newIngress_relist:
  assumes "newIngress d a typ m host hs = (Inr ing, a1)"
  shows "\<exists>a2. newIngress d a1 typ m host' hs = (Inr (ing\<lparr>Ingress.Hostname := host'\<rparr>), a2)"
proof -
  from assms newIngress_snd [of d a "typ" m host hs]
  obtain e1 where a1: "a1 = a\<lparr>extraCNIEndpoints := e1\<rparr>" by auto
  have "fst (newIngress d a1 typ m host' hs) = fst (newIngress d a typ m host' hs)"
    unfolding a1 by (rule newIngress_fst)
  also have "\<dots> = Inr (ing\<lparr>Ingress.Hostname := host'\<rparr>)"
    using assms newIngress_host [of d a "typ" m host' hs host] by simp
  finally show ?thesis
    by (cases "newIngress d a1 typ m host' hs") simp
qed

lemma newIngress_ResourceType:
  "newIngress d a typ m host hs = (Inr ing, a1) \<Longrightarrow> ResourceType ing = typ"
  unfolding newIngress_def Let_def
  by (auto simp: if_Inl_Inr_eq split: prod.splits sum.splits)

lemma Update_not_needed:
  assumes "loadBalancerDNSName \<noteq> []"
      and "Ingress.Hostname ing
             = (if loadBalancerDNSName = DefaultClusterLocalDomain then []
                else loadBalancerDNSName)"
  shows "UpdateIngressLoadBalancer c a (Some ing) loadBalancerDNSName
         = (Some ErrUpdateNotNeeded, [])"
  using assms by (simp add: UpdateIngressLoadBalancer_def Let_def)

lemma Update_ingress_patch:
  assumes "UpdateIngressLoadBalancer c a (Some ing) loadBalancerDNSName = (None, ps)"
      and "ResourceType ing = TypeIngress"
  shows "loadBalancerDNSName \<noteq> []
         \<and> (\<exists>resource. ps = [PatchIngress resource
               \<lparr>patchIngressStatus.Status = \<lparr>ingressStatus.LoadBalancer = \<lparr>Ingress =
                  [\<lparr>ingressLoadBalancer.Hostname =
                      (if loadBalancerDNSName = DefaultClusterLocalDomain then []
                       else loadBalancerDNSName)\<rparr>]\<rparr>\<rparr>\<rparr>])"
  using assms
  by (auto simp: UpdateIngressLoadBalancer_def updateIngressLoadBalancer_def Let_def
        TypeIngress_def TypeRouteGroup_def split: if_splits option.splits)

lemma Update_routegroup_patch:
  assumes "UpdateIngressLoadBalancer c a (Some ing) loadBalancerDNSName = (None, ps)"
      and "ResourceType ing = TypeRouteGroup"
  shows "loadBalancerDNSName \<noteq> []
         \<and> ps = [PatchRoutegroup (Ingress.Namespace ing) (Ingress.Name ing)
                  (if loadBalancerDNSName = DefaultClusterLocalDomain then []
                   else loadBalancerDNSName)]"
  using assms
  by (auto simp: UpdateIngressLoadBalancer_def updateRoutegroupLoadBalancer_def Let_def
        split: if_splits)

lemma host_single: "newIngressFromKube_host [\<lparr>ingressLoadBalancer.Hostname = h\<rparr>] = h"
  by simp

lemma rg_host_single: "newIngressFromRouteGroup_host [\<lparr>routegroupLoadBalancer.Hostname = h\<rparr>] = h"
  by simp

text \<open>
  C8, as the code has it. For a DNS name that is not empty, \<open>UpdateIngressLoadBalancer\<close>
  returns \<open>ErrUpdateNotNeeded\<close> and sends no PATCH when the hostname of the record is
  the DNS name, the cluster-local domain counting as the empty hostname. Hence a second
  write-back sends nothing: when the write-back for a listed ingress or RouteGroup has
  sent its PATCH without error, it has sent exactly one, and for the object listed again
  with the status of that PATCH the write-back of the same DNS name returns
  \<open>ErrUpdateNotNeeded\<close> and sends no PATCH.
\<close>

theorem UpdateIngressLoadBalancer_idempotent:
  "(loadBalancerDNSName \<noteq> []
      \<and> Ingress.Hostname ing
          = (if loadBalancerDNSName = DefaultClusterLocalDomain then []
             else loadBalancerDNSName)
      \<longrightarrow> UpdateIngressLoadBalancer c a (Some ing) loadBalancerDNSName
            = (Some ErrUpdateNotNeeded, []))
   \<and> (newIngressFromKube d a k = (Inr ing1, a1)
      \<and> UpdateIngressLoadBalancer c a1 (Some ing1) loadBalancerDNSName = (None, ps)
      \<longrightarrow> (\<exists>resource body ing2 a2.
             ps = [PatchIngress resource body]
             \<and> newIngressFromKube d a1 (k\<lparr>ingress.Status := patchIngressStatus.Status body\<rparr>)
                 = (Inr ing2, a2)
             \<and> UpdateIngressLoadBalancer c' a2 (Some ing2) loadBalancerDNSName
                 = (Some ErrUpdateNotNeeded, [])))
   \<and> (newIngressFromRouteGroup d a rg = (Inr ing1, a1)
      \<and> UpdateIngressLoadBalancer c a1 (Some ing1) loadBalancerDNSName = (None, ps)
      \<longrightarrow> (\<exists>ns name newHostName ing2 a2.
             ps = [PatchRoutegroup ns name newHostName]
             \<and> newIngressFromRouteGroup d a1
                  (rg\<lparr>routegroup.Status := \<lparr>routegroupStatus.LoadBalancer =
                       \<lparr>Routegroup = [\<lparr>routegroupLoadBalancer.Hostname = newHostName\<rparr>]\<rparr>\<rparr>\<rparr>)
                 = (Inr ing2, a2)
             \<and> UpdateIngressLoadBalancer c' a2 (Some ing2) loadBalancerDNSName
                 = (Some ErrUpdateNotNeeded, [])))"
proof (intro conjI impI)
  assume "loadBalancerDNSName \<noteq> []
      \<and> Ingress.Hostname ing
          = (if loadBalancerDNSName = DefaultClusterLocalDomain then []
             else loadBalancerDNSName)"
  then show "UpdateIngressLoadBalancer c a (Some ing) loadBalancerDNSName
            = (Some ErrUpdateNotNeeded, [])"
    by (simp add: Update_not_needed)
next
  define h where
    "h = (if loadBalancerDNSName = DefaultClusterLocalDomain then [] else loadBalancerDNSName)"
  define body where
    "body = \<lparr>patchIngressStatus.Status = \<lparr>ingressStatus.LoadBalancer = \<lparr>Ingress =
                  [\<lparr>ingressLoadBalancer.Hostname = h\<rparr>]\<rparr>\<rparr>\<rparr>"
  assume asm: "newIngressFromKube d a k = (Inr ing1, a1)
      \<and> UpdateIngressLoadBalancer c a1 (Some ing1) loadBalancerDNSName = (None, ps)"
  then have list: "newIngress d a TypeIngress (ingress.Metadata k)
       (newIngressFromKube_host (Ingress (ingressStatus.LoadBalancer (ingress.Status k))))
       (newIngressFromKube_hostnames a (Rules (ingress.Spec k))) = (Inr ing1, a1)"
    by (simp add: newIngressFromKube_def)
  from newIngress_ResourceType [OF list] have rt: "ResourceType ing1 = TypeIngress" .
  from asm Update_ingress_patch [OF _ rt]
  obtain resource where ne: "loadBalancerDNSName \<noteq> []" and ps: "ps = [PatchIngress resource body]"
    unfolding body_def h_def by blast
  from list newIngress_snd [of d a TypeIngress "ingress.Metadata k"
       "newIngressFromKube_host (Ingress (ingressStatus.LoadBalancer (ingress.Status k)))"
       "newIngressFromKube_hostnames a (Rules (ingress.Spec k))"]
  obtain e1 where a1: "a1 = a\<lparr>extraCNIEndpoints := e1\<rparr>" by auto
  from newIngress_relist [OF list, of h]
  obtain a2 where "newIngress d a1 TypeIngress (ingress.Metadata k) h
       (newIngressFromKube_hostnames a (Rules (ingress.Spec k)))
     = (Inr (ing1\<lparr>Ingress.Hostname := h\<rparr>), a2)"
    by blast
  then have relist: "newIngressFromKube d a1 (k\<lparr>ingress.Status := patchIngressStatus.Status body\<rparr>)
     = (Inr (ing1\<lparr>Ingress.Hostname := h\<rparr>), a2)"
    unfolding newIngressFromKube_def a1 body_def
    by (simp add: hostnames_indep host_single del: newIngressFromKube_host.simps)
  have "UpdateIngressLoadBalancer c' a2 (Some (ing1\<lparr>Ingress.Hostname := h\<rparr>)) loadBalancerDNSName
        = (Some ErrUpdateNotNeeded, [])"
    by (rule Update_not_needed [OF ne]) (simp add: h_def)
  with ps relist
  show "\<exists>resource body ing2 a2.
             ps = [PatchIngress resource body]
             \<and> newIngressFromKube d a1 (k\<lparr>ingress.Status := patchIngressStatus.Status body\<rparr>)
                 = (Inr ing2, a2)
             \<and> UpdateIngressLoadBalancer c' a2 (Some ing2) loadBalancerDNSName
                 = (Some ErrUpdateNotNeeded, [])"
    by blast
next
  define h where
    "h = (if loadBalancerDNSName = DefaultClusterLocalDomain then [] else loadBalancerDNSName)"
  assume asm: "newIngressFromRouteGroup d a rg = (Inr ing1, a1)
      \<and> UpdateIngressLoadBalancer c a1 (Some ing1) loadBalancerDNSName = (None, ps)"
  then have list: "newIngress d a TypeRouteGroup (routegroup.Metadata rg)
       (newIngressFromRouteGroup_host
          (Routegroup (routegroupStatus.LoadBalancer (routegroup.Status rg))))
       (newIngressFromRouteGroup_hostnames a (Hosts (routegroup.Spec rg))) = (Inr ing1, a1)"
    by (simp add: newIngressFromRouteGroup_def)
  from newIngress_ResourceType [OF list] have rt: "ResourceType ing1 = TypeRouteGroup" .
  from asm Update_routegroup_patch [OF _ rt]
  have ne: "loadBalancerDNSName \<noteq> []"
    and ps: "ps = [PatchRoutegroup (Ingress.Namespace ing1) (Ingress.Name ing1) h]"
    unfolding h_def by blast+
  from list newIngress_snd [of d a TypeRouteGroup "routegroup.Metadata rg"
       "newIngressFromRouteGroup_host
          (Routegroup (routegroupStatus.LoadBalancer (routegroup.Status rg)))"
       "newIngressFromRouteGroup_hostnames a (Hosts (routegroup.Spec rg))"]
  obtain e1 where a1: "a1 = a\<lparr>extraCNIEndpoints := e1\<rparr>" by auto
  from newIngress_relist [OF list, of h]
  obtain a2 where "newIngress d a1 TypeRouteGroup (routegroup.Metadata rg) h
       (newIngressFromRouteGroup_hostnames a (Hosts (routegroup.Spec rg)))
     = (Inr (ing1\<lparr>Ingress.Hostname := h\<rparr>), a2)"
    by blast
  then have relist: "newIngressFromRouteGroup d a1
       (rg\<lparr>routegroup.Status := \<lparr>routegroupStatus.LoadBalancer =
             \<lparr>Routegroup = [\<lparr>routegroupLoadBalancer.Hostname = h\<rparr>]\<rparr>\<rparr>\<rparr>)
     = (Inr (ing1\<lparr>Ingress.Hostname := h\<rparr>), a2)"
    unfolding newIngressFromRouteGroup_def a1
    by (simp add: rg_hostnames_indep rg_host_single del: newIngressFromRouteGroup_host.simps)
  have "UpdateIngressLoadBalancer c' a2 (Some (ing1\<lparr>Ingress.Hostname := h\<rparr>)) loadBalancerDNSName
        = (Some ErrUpdateNotNeeded, [])"
    by (rule Update_not_needed [OF ne]) (simp add: h_def)
  with ps relist
  show "\<exists>ns name newHostName ing2 a2.
             ps = [PatchRoutegroup ns name newHostName]
             \<and> newIngressFromRouteGroup d a1
                  (rg\<lparr>routegroup.Status := \<lparr>routegroupStatus.LoadBalancer =
                       \<lparr>Routegroup = [\<lparr>routegroupLoadBalancer.Hostname = newHostName\<rparr>]\<rparr>\<rparr>\<rparr>)
                 = (Inr ing2, a2)
             \<and> UpdateIngressLoadBalancer c' a2 (Some ing2) loadBalancerDNSName
                 = (Some ErrUpdateNotNeeded, [])"
    by blast
qed

theorem UpdateIngressLoadBalancer_idempotent_witness:
  "newIngressFromKube demoDeps demoAdapter (demoIngress Map.empty ''old.elb.amazonaws.com'')
     = (Inr ((demoRecord ''network'')\<lparr>Ingress.Hostname := ''old.elb.amazonaws.com''\<rparr>),
        demoAdapter)
   \<and> UpdateIngressLoadBalancer demoClient demoAdapter
       (Some ((demoRecord ''network'')\<lparr>Ingress.Hostname := ''old.elb.amazonaws.com''\<rparr>))
       ''x.elb.amazonaws.com''
     = (None,
        [PatchIngress ''/apis/networking.k8s.io/v1/namespaces/default/ingresses/myingress/status''
           \<lparr>patchIngressStatus.Status = \<lparr>ingressStatus.LoadBalancer = \<lparr>Ingress =
              [\<lparr>ingressLoadBalancer.Hostname = ''x.elb.amazonaws.com''\<rparr>]\<rparr>\<rparr>\<rparr>])
   \<and> newIngressFromKube demoDeps demoAdapter (demoIngress Map.empty ''x.elb.amazonaws.com'')
     = (Inr ((demoRecord ''network'')\<lparr>Ingress.Hostname := ''x.elb.amazonaws.com''\<rparr>),
        demoAdapter)
   \<and> UpdateIngressLoadBalancer demoClient demoAdapter
       (Some ((demoRecord ''network'')\<lparr>Ingress.Hostname := ''x.elb.amazonaws.com''\<rparr>))
       ''x.elb.amazonaws.com''
     = (Some ErrUpdateNotNeeded, [])"
proof -
  let ?old = "(demoRecord ''network'')\<lparr>Ingress.Hostname := ''old.elb.amazonaws.com''\<rparr>"
  let ?new = "(demoRecord ''network'')\<lparr>Ingress.Hostname := ''x.elb.amazonaws.com''\<rparr>"
  have l1: "newIngressFromKube demoDeps demoAdapter
              (demoIngress Map.empty ''old.elb.amazonaws.com'') = (Inr ?old, demoAdapter)"
    by (simp add: kube_eval)
  have u1: "UpdateIngressLoadBalancer demoClient demoAdapter (Some ?old) ''x.elb.amazonaws.com''
     = (None,
        [PatchIngress ''/apis/networking.k8s.io/v1/namespaces/default/ingresses/myingress/status''
           \<lparr>patchIngressStatus.Status = \<lparr>ingressStatus.LoadBalancer = \<lparr>Ingress =
              [\<lparr>ingressLoadBalancer.Hostname = ''x.elb.amazonaws.com''\<rparr>]\<rparr>\<rparr>\<rparr>])"
    by (simp add: UpdateIngressLoadBalancer_def updateIngressLoadBalancer_def Let_def
          demoClient_def demoRecord_def demoAdapter_def DefaultClusterLocalDomain_def
          TypeIngress_def TypeRouteGroup_def)
  have l2: "newIngressFromKube demoDeps demoAdapter
              (demoIngress Map.empty ''x.elb.amazonaws.com'') = (Inr ?new, demoAdapter)"
    by (simp add: kube_eval)
  have h: "''x.elb.amazonaws.com'' \<noteq> []
      \<and> Ingress.Hostname ?new
          = (if ''x.elb.amazonaws.com'' = DefaultClusterLocalDomain then []
             else ''x.elb.amazonaws.com'')"
    by (simp add: DefaultClusterLocalDomain_def)
  from UpdateIngressLoadBalancer_idempotent
         [where loadBalancerDNSName = "''x.elb.amazonaws.com''" and ing = ?new
            and c = demoClient and a = demoAdapter] h
  have "UpdateIngressLoadBalancer demoClient demoAdapter (Some ?new) ''x.elb.amazonaws.com''
          = (Some ErrUpdateNotNeeded, [])"
    by blast
  with l1 u1 l2 show ?thesis by simp
qed

text \<open>
  C8, as the specification states it, fails for the empty DNS name: the hostname of
  the record is the DNS name, and the function returns
  \<open>ErrInvalidIngressUpdateParams\<close>.
\<close>

theorem UpdateIngressLoadBalancer_empty_name_counterexample:
  "Ingress.Hostname (demoRecord ''network'') = []
   \<and> UpdateIngressLoadBalancer demoClient demoAdapter (Some (demoRecord ''network'')) []
       = (Some ErrInvalidIngressUpdateParams, [])
   \<and> ErrInvalidIngressUpdateParams \<noteq> ErrUpdateNotNeeded"
  by (simp add: UpdateIngressLoadBalancer_def demoRecord_def)

section \<open>The RouteGroup support of the adapter\<close>








end
